theory Spec2Isabelle
  imports Main
begin

section \<open>Errors\<close>

text \<open>
  The Python exceptions that the modelled code can raise. Every raise of the source is
  a value \<open>Inl e\<close> of a result type \<open>error + 'a\<close>.
\<close>

datatype error =
    KeyError
  | ValueError
  | TypeError
  | AttributeError
  | IndexError
  | OSError
  | UnauthorizedLogin
  | UnicodeError
  | NotModelled

text \<open>
  \<open>UnicodeError\<close> stands for UnicodeEncodeError and UnicodeDecodeError, which are
  subclasses of ValueError. \<open>NotModelled\<close> is no Python exception: it marks an input
  on which this development does not follow the code (a floating-point literal in JSON
  text).
\<close>

section \<open>twisted.cred.checkers.FilePasswordDB\<close>

subsection \<open>Byte strings\<close>

text \<open>
  The credentials file is opened in binary mode, so lines, fields and user names are
  \<open>bytes\<close>: a \<open>string\<close>, one \<open>char\<close> per byte.
\<close>

definition LF :: char where
  "LF = CHR 0x0A"

text \<open>\<open>bytes.rstrip()\<close> without argument removes trailing ASCII whitespace.\<close>

definition is_space :: "char \<Rightarrow> bool" where
  "is_space c = (c \<in> set [CHR 0x20, CHR 0x09, CHR 0x0A, CHR 0x0B, CHR 0x0C, CHR 0x0D])"

definition rstrip :: "string \<Rightarrow> string" where
  "rstrip s = rev (dropWhile is_space (rev s))"

text \<open>
  \<open>bytes.split(sep)\<close> for a non-empty separator: \<open>cur\<close> holds the current
  field, reversed. The empty separator, where Python raises ValueError, is handled by the
  caller.
\<close>

fun split_bytes :: "string \<Rightarrow> string \<Rightarrow> string \<Rightarrow> string list" where
  "split_bytes d cur [] = [rev cur]"
| "split_bytes d cur (c # cs) =
     (if take (length d) (c # cs) = d
      then rev cur # split_bytes d [] (drop (length d - 1) cs)
      else split_bytes d (c # cur) cs)"

text \<open>\<open>bytes.lower()\<close> maps the ASCII capitals to small letters.\<close>

definition lower_char :: "char \<Rightarrow> char" where
  "lower_char c =
     (let n = (of_char c :: nat) in if 65 \<le> n \<and> n \<le> 90 then char_of (n + 32) else c)"

definition lower :: "string \<Rightarrow> string" where
  "lower s = map lower_char s"

text \<open>
  Iterating over a binary file yields its lines, each with its terminating line feed
  (the last line may lack one).
\<close>

fun file_lines :: "string \<Rightarrow> string list" where
  "file_lines [] = []"
| "file_lines (c # cs) =
     (if c = LF then [c] # file_lines cs
      else (case file_lines cs of [] \<Rightarrow> [[c]] | l # ls \<Rightarrow> (c # l) # ls))"

text \<open>Python indexing \<open>xs[i]\<close>: a negative index counts from the end.\<close>

definition py_index :: "'a list \<Rightarrow> int \<Rightarrow> error + 'a" where
  "py_index xs i =
     (if 0 \<le> i \<and> i < int (length xs) then Inr (xs ! nat i)
      else if i < 0 \<and> - i \<le> int (length xs) then Inr (xs ! nat (int (length xs) + i))
      else Inl IndexError)"

subsection \<open>The database object and the file system\<close>

text \<open>
  The attributes of a \<open>FilePasswordDB\<close> that \<open>getUser\<close> reads or writes.
  (\<open>filename\<close> is fixed, and \<open>hash\<close> is used by \<open>requestAvatarId\<close> only.)
  \<open>credCache\<close> is \<open>None\<close> until the first cached load; the dictionary is a map.
\<close>

record FilePasswordDB =
  delim :: string
  ufield :: int
  pfield :: int
  caseSensitive :: bool
  cache :: bool
  credCache :: "(string \<rightharpoonup> string) option"
  cacheTimestamp :: int

text \<open>
  What the code sees of the file: its content (\<open>None\<close> when \<open>open\<close> raises IOError) and
  its modification time (\<open>None\<close> when \<open>os.path.getmtime\<close> raises OSError). Only the
  order of time stamps is used, so they are integers here.
\<close>

record filesys =
  content :: "string option"
  mtime :: "int option"

text \<open>The constructor's defaults: \<open>FilePasswordDB(filename)\<close>.\<close>

definition default_db :: FilePasswordDB where
  "default_db = \<lparr> delim = '':'', ufield = 0, pfield = 1, caseSensitive = True,
                  cache = False, credCache = None, cacheTimestamp = 0 \<rparr>"

subsection \<open>\<open>_loadCredentials\<close>\<close>

definition line_parts :: "FilePasswordDB \<Rightarrow> string \<Rightarrow> string list" where
  "line_parts db line = split_bytes (delim db) [] (rstrip line)"

definition too_short :: "FilePasswordDB \<Rightarrow> string \<Rightarrow> bool" where
  "too_short db line =
     (ufield db \<ge> int (length (line_parts db line)) \<or>
      pfield db \<ge> int (length (line_parts db line)))"

text \<open>
  The body of the loop for one line: \<open>Inr None\<close> is \<open>continue\<close>, \<open>Inr (Some p)\<close>
  yields the pair \<open>p\<close>, \<open>Inl e\<close> raises.
\<close>

definition cred_of_line :: "FilePasswordDB \<Rightarrow> string \<Rightarrow> error + (string \<times> string) option" where
  "cred_of_line db line =
     (if delim db = [] then Inl ValueError
      else if too_short db line then Inr None
      else (case py_index (line_parts db line) (ufield db) of
              Inl e \<Rightarrow> Inl e
            | Inr u \<Rightarrow>
                (case py_index (line_parts db line) (pfield db) of
                   Inl e \<Rightarrow> Inl e
                 | Inr p \<Rightarrow> Inr (Some (if caseSensitive db then u else lower u, p)))))"

text \<open>
  The generator: the pairs it yields, in order, and the exception that ends it, if any.
\<close>

fun creds_of_lines :: "FilePasswordDB \<Rightarrow> string list \<Rightarrow> (string \<times> string) list \<times> error option" where
  "creds_of_lines db [] = ([], None)"
| "creds_of_lines db (l # ls) =
     (case cred_of_line db l of
        Inl e \<Rightarrow> ([], Some e)
      | Inr None \<Rightarrow> creds_of_lines db ls
      | Inr (Some p) \<Rightarrow> (p # fst (creds_of_lines db ls), snd (creds_of_lines db ls)))"

definition loadCredentials :: "FilePasswordDB \<Rightarrow> filesys \<Rightarrow> (string \<times> string) list \<times> error option" where
  "loadCredentials db fs =
     (case content fs of
        None \<Rightarrow> ([], Some UnauthorizedLogin)
      | Some c \<Rightarrow> creds_of_lines db (file_lines c))"

subsection \<open>\<open>getUser\<close>\<close>

text \<open>\<open>dict(pairs)\<close>: a later pair overrides an earlier one with the same key.\<close>

definition dict_of_pairs :: "(string \<times> string) list \<Rightarrow> (string \<rightharpoonup> string)" where
  "dict_of_pairs ps = map_of (rev ps)"

text \<open>The uncached branch: the first yielded pair whose name matches.\<close>

fun first_match :: "string \<Rightarrow> (string \<times> string) list \<Rightarrow> (string \<times> string) option" where
  "first_match username [] = None"
| "first_match username ((u, p) # ps) =
     (if u = username then Some (u, p) else first_match username ps)"

definition canon :: "FilePasswordDB \<Rightarrow> string \<Rightarrow> string" where
  "canon db username = (if caseSensitive db then username else lower username)"

definition lookup_cache :: "(string \<rightharpoonup> string) option \<Rightarrow> string \<Rightarrow> error + string \<times> string" where
  "lookup_cache c username =
     (case c of
        None \<Rightarrow> Inl TypeError
      | Some m \<Rightarrow> (case m username of None \<Rightarrow> Inl KeyError | Some p \<Rightarrow> Inr (username, p)))"

text \<open>
  \<open>getUser\<close> returns its result together with the object as it is left behind.
  In the cached branch the time stamp is stored before the file is loaded, so it is
  kept when the load raises.
\<close>

definition getUser :: "FilePasswordDB \<Rightarrow> filesys \<Rightarrow> string \<Rightarrow> (error + string \<times> string) \<times> FilePasswordDB" where
  "getUser db fs username0 =
     (let username = canon db username0 in
      if cache db then
        (if credCache db \<noteq> None \<and> mtime fs = None then (Inl OSError, db)
         else if credCache db = None \<or> the (mtime fs) > cacheTimestamp db then
           (case mtime fs of
              None \<Rightarrow> (Inl OSError, db)
            | Some t \<Rightarrow>
                (let db1 = db\<lparr>cacheTimestamp := t\<rparr> in
                 case loadCredentials db1 fs of
                   (ps, Some e) \<Rightarrow> (Inl e, db1)
                 | (ps, None) \<Rightarrow>
                     (let db2 = db1\<lparr>credCache := Some (dict_of_pairs ps)\<rparr>
                      in (lookup_cache (credCache db2) username, db2))))
         else (lookup_cache (credCache db) username, db))
      else
        (case loadCredentials db fs of
           (ps, e) \<Rightarrow>
             (case first_match username ps of
                Some r \<Rightarrow> (Inr r, db)
              | None \<Rightarrow> (case e of Some err \<Rightarrow> (Inl err, db) | None \<Rightarrow> (Inl KeyError, db)))))"

section \<open>twisted.python.logger._json: values\<close>

subsection \<open>Text\<close>

text \<open>
  A Python \<open>str\<close> is a list of Unicode code points. \<open>ulit\<close> turns a literal into text.
\<close>

type_synonym ustr = "nat list"

definition ulit :: "string \<Rightarrow> ustr" where
  "ulit s = map of_char s"

subsection \<open>Python values\<close>

text \<open>
  Dictionary keys. The JSON encoder writes a \<open>str\<close> key as it is, turns \<open>int\<close>,
  \<open>bool\<close> and \<open>None\<close> keys into text, and, with \<open>skipkeys=True\<close>, drops every
  other key (\<open>KOther\<close>). Floating-point numbers are outside this development.
\<close>

datatype pykey = KStr ustr | KInt int | KBool bool | KNone | KOther nat

text \<open>
  The values an event can hold. A dictionary is the list of its items in insertion order.
  \<open>PNamedConstant c n\<close> is the constant named \<open>n\<close> of the container class \<open>c\<close>
  (\<open>twisted.python.constants\<close>); \<open>PObject\<close> is any other object.

  Modelled from the spec: \<open>twisted.python.failure.Failure\<close> is not under src/. Following
  the spec's data model, an error record \<open>PFailure name module state\<close> holds the name
  and the namespace of its type, which \<open>failure.type.__name__\<close> and
  \<open>failure.type.__module__\<close> read, and a state mapping, which
  \<open>failure.__getstate__()\<close> returns and \<open>f.__dict__ = ...\<close> replaces.
  \<open>PClass name module\<close> is a class object with these two attributes.
\<close>

datatype pyval =
    PNone
  | PBool bool
  | PInt int
  | PStr ustr
  | PBytes string
  | PList "pyval list"
  | PTuple "pyval list"
  | PDict "(pykey \<times> pyval) list"
  | PNamedConstant ustr ustr
  | PClass ustr pyval
  | PFailure ustr pyval "(pykey \<times> pyval) list"
  | PObject nat

type_synonym dict = "(pykey \<times> pyval) list"

text \<open>\<open>d[k] = v\<close>: an existing key keeps its place, a new one goes to the end.\<close>

fun dict_set :: "pykey \<Rightarrow> pyval \<Rightarrow> dict \<Rightarrow> dict" where
  "dict_set k v [] = [(k, v)]"
| "dict_set k v ((k', v') # d) = (if k' = k then (k, v) # d else (k', v') # dict_set k v d)"

text \<open>\<open>d.get(k)\<close> on the item list of a dictionary, whose keys are distinct.\<close>

fun dict_get :: "dict \<Rightarrow> pykey \<Rightarrow> pyval option" where
  "dict_get [] k = None"
| "dict_get ((k', v) # d) k = (if k' = k then Some v else dict_get d k)"

text \<open>\<open>dict(pairs)\<close>, as the JSON decoder builds an object from its members.\<close>

definition dict_of_items :: "(pykey \<times> pyval) list \<Rightarrow> dict" where
  "dict_of_items ps = foldl (\<lambda>d (k, v). dict_set k v d) [] ps"

subsection \<open>The class registry\<close>

text \<open>
  Modelled from the spec: \<open>LogLevel\<close> (\<open>twisted.python.logger._levels\<close>) is not under
  src/. It is the fixed enumeration of log levels, identified by name; the spec names
  \<open>LogLevel.warn\<close>, the members are those of Twisted's \<open>LogLevel\<close>.
\<close>

definition LogLevel_names :: "ustr list" where
  "LogLevel_names = [ulit ''debug'', ulit ''info'', ulit ''warn'', ulit ''error'', ulit ''critical'']"

definition LogLevel_const :: "ustr \<Rightarrow> pyval" where
  "LogLevel_const n = PNamedConstant (ulit ''LogLevel'') n"

text \<open>
  The first predicate of \<open>classInfo\<close>: a \<open>NamedConstant\<close> that is the attribute of
  \<open>LogLevel\<close> with its own name.
\<close>

fun isLogLevel :: "pyval \<Rightarrow> bool" where
  "isLogLevel (PNamedConstant c n) = (c = ulit ''LogLevel'' \<and> n \<in> set LogLevel_names)"
| "isLogLevel _ = False"

fun isFailure :: "pyval \<Rightarrow> bool" where
  "isFailure (PFailure n m st) = True"
| "isFailure _ = False"

text \<open>Fixed-width lower-case hexadecimal: the last \<open>w\<close> digits of \<open>n\<close>.\<close>

definition hex_digit :: "nat \<Rightarrow> nat" where
  "hex_digit d = (if d < 10 then 48 + d else 87 + d)"

fun hex_fixed :: "nat \<Rightarrow> nat \<Rightarrow> ustr" where
  "hex_fixed 0 n = []"
| "hex_fixed (Suc w) n = hex_fixed w (n div 16) @ [hex_digit (n mod 16)]"

definition hex_value :: "nat \<Rightarrow> nat option" where
  "hex_value c =
     (if 48 \<le> c \<and> c \<le> 57 then Some (c - 48)
      else if 97 \<le> c \<and> c \<le> 102 then Some (c - 87)
      else if 65 \<le> c \<and> c \<le> 70 then Some (c - 55)
      else None)"

text \<open>
  A UUID is the list of the 32 hexadecimal digits of its 128-bit integer.
  \<open>UUID(hex)\<close> removes \<open>urn:\<close> and \<open>uuid:\<close>, strips braces, removes hyphens and
  reads 32 hexadecimal digits; anything else raises ValueError. (The other spellings of
  a number that Python's \<open>int(hex, 16)\<close> admits are taken as malformed.)
\<close>

type_synonym uuid = "nat list"

fun remove_all :: "ustr \<Rightarrow> ustr \<Rightarrow> ustr" where
  "remove_all p [] = []"
| "remove_all p (c # cs) =
     (if p \<noteq> [] \<and> take (length p) (c # cs) = p then remove_all p (drop (length p - 1) cs)
      else c # remove_all p cs)"

definition strip_chars :: "nat list \<Rightarrow> ustr \<Rightarrow> ustr" where
  "strip_chars cs s = rev (dropWhile (\<lambda>c. c \<in> set cs) (rev (dropWhile (\<lambda>c. c \<in> set cs) s)))"

definition UUID :: "ustr \<Rightarrow> error + uuid" where
  "UUID s =
     (let hex = remove_all (ulit ''-'')
                  (strip_chars (ulit ''{}'')
                     (remove_all (ulit ''uuid:'') (remove_all (ulit ''urn:'') s)))
      in if length hex \<noteq> 32 then Inl ValueError
         else if list_all (\<lambda>c. hex_value c \<noteq> None) hex then Inr (map (\<lambda>c. the (hex_value c)) hex)
         else Inl ValueError)"

text \<open>\<open>str(uuid)\<close>: 8-4-4-4-12 lower-case hexadecimal digits.\<close>

definition str_uuid :: "uuid \<Rightarrow> ustr" where
  "str_uuid u =
     (let h = map hex_digit u in
      take 8 h @ [45] @ take 4 (drop 8 h) @ [45] @ take 4 (drop 12 h) @ [45] @
      take 4 (drop 16 h) @ [45] @ drop 20 h)"

text \<open>The two tags of \<open>classInfo\<close>.\<close>

definition LogLevel_uuid :: uuid where
  "LogLevel_uuid = projr (UUID (ulit ''02E59486-F24D-46AD-8224-3ACDF2A5732A''))"

definition Failure_uuid :: uuid where
  "Failure_uuid = projr (UUID (ulit ''E76887E2-20ED-49BF-A8F8-BA25CC586F2D''))"

definition class_uuid_key :: pykey where
  "class_uuid_key = KStr (ulit ''__class_uuid__'')"

subsection \<open>Saving: \<open>failureAsJSON\<close> and \<open>objectSaveHook\<close>\<close>

definition failureAsJSON :: "ustr \<Rightarrow> pyval \<Rightarrow> dict \<Rightarrow> dict" where
  "failureAsJSON name module state =
     dict_set (KStr (ulit ''type''))
       (PDict [(KStr (ulit ''__module__''), module), (KStr (ulit ''__name__''), PStr name)])
       state"

text \<open>
  \<open>objectSaveHook\<close> tries the entries of \<open>classInfo\<close> in order and stamps the saver's
  result with the tag; an object that no predicate accepts becomes the marker.
\<close>

fun objectSaveHook :: "pyval \<Rightarrow> pyval" where
  "objectSaveHook (PNamedConstant c n) =
     (if isLogLevel (PNamedConstant c n)
      then PDict (dict_set class_uuid_key (PStr (str_uuid LogLevel_uuid))
                    [(KStr (ulit ''name''), PStr n)])
      else PDict [(KStr (ulit ''unpersistable''), PBool True)])"
| "objectSaveHook (PFailure n m st) =
     PDict (dict_set class_uuid_key (PStr (str_uuid Failure_uuid)) (failureAsJSON n m st))"
| "objectSaveHook v = PDict [(KStr (ulit ''unpersistable''), PBool True)]"

text \<open>
  The \<open>default\<close> function of \<open>eventAsJSON\<close> (the branch for Python 3):
  \<open>bytes\<close> are decoded with the charmap codec, one code point per byte.
\<close>

fun default_hook :: "pyval \<Rightarrow> pyval" where
  "default_hook (PBytes b) = PStr (map of_char b)"
| "default_hook v = objectSaveHook v"

subsection \<open>json.dumps\<close>

text \<open>
  The standard library's encoder, with the options \<open>eventAsJSON\<close> passes
  (\<open>default\<close>, \<open>skipkeys=True\<close>) and its defaults (\<open>ensure_ascii=True\<close>, the
  separators \<open>", "\<close> and \<open>": "\<close>).
\<close>

text \<open>One character of a string literal, as \<open>encode_basestring_ascii\<close> writes it.\<close>

definition escape_char :: "nat \<Rightarrow> ustr" where
  "escape_char c =
     (if c = 34 then [92, 34]
      else if c = 92 then [92, 92]
      else if c = 10 then [92, 110]
      else if c = 13 then [92, 114]
      else if c = 9 then [92, 116]
      else if c = 8 then [92, 98]
      else if c = 12 then [92, 102]
      else if 32 \<le> c \<and> c \<le> 126 then [c]
      else if c < 0x10000 then [92, 117] @ hex_fixed 4 c
      else [92, 117] @ hex_fixed 4 (0xD800 + (c - 0x10000) div 0x400 mod 0x400) @
           [92, 117] @ hex_fixed 4 (0xDC00 + (c - 0x10000) mod 0x400))"

definition encode_basestring_ascii :: "ustr \<Rightarrow> ustr" where
  "encode_basestring_ascii s = [34] @ concat (map escape_char s) @ [34]"

text \<open>\<open>int.__repr__\<close>: decimal digits, with a minus sign for a negative number.\<close>

fun str_nat :: "nat \<Rightarrow> ustr" where
  "str_nat n = (if n < 10 then [48 + n] else str_nat (n div 10) @ [48 + n mod 10])"

declare str_nat.simps [simp del]

definition str_int :: "int \<Rightarrow> ustr" where
  "str_int i = (if i < 0 then 45 # str_nat (nat (- i)) else str_nat (nat i))"

text \<open>The text of a key; \<open>None\<close> for a key that is skipped.\<close>

fun key_text :: "pykey \<Rightarrow> ustr option" where
  "key_text (KStr s) = Some s"
| "key_text (KInt i) = Some (str_int i)"
| "key_text (KBool b) = Some (if b then ulit ''true'' else ulit ''false'')"
| "key_text KNone = Some (ulit ''null'')"
| "key_text (KOther n) = None"

fun join :: "ustr \<Rightarrow> ustr list \<Rightarrow> ustr" where
  "join sep [] = []"
| "join sep [x] = x"
| "join sep (x # y # ys) = x @ sep @ join sep (y # ys)"

text \<open>
  The measure under which the encoder terminates: what \<open>default\<close> returns for an
  object weighs less than the object.
\<close>

fun weight :: "pyval \<Rightarrow> nat" where
  "weight (PList xs) = Suc (sum_list (map weight xs))"
| "weight (PTuple xs) = Suc (sum_list (map weight xs))"
| "weight (PDict d) = Suc (sum_list (map (\<lambda>kv. weight (snd kv)) d))"
| "weight (PBytes b) = 1"
| "weight (PNamedConstant c n) = 2"
| "weight (PClass n m) = 2"
| "weight (PObject n) = 2"
| "weight (PFailure n m st) = 3 + weight m + sum_list (map (\<lambda>kv. weight (snd kv)) st)"
| "weight v = 0"

lemma weight_dict_set:
  "sum_list (map (\<lambda>kv. weight (snd kv)) (dict_set k v d))
     \<le> sum_list (map (\<lambda>kv. weight (snd kv)) d) + weight v"
  by (induction d) auto

lemma weight_member: "x \<in> set xs \<Longrightarrow> weight x \<le> sum_list (map weight xs)"
  by (induction xs) auto

lemma weight_item: "(k, v) \<in> set d \<Longrightarrow> weight v \<le> sum_list (map (\<lambda>kv. weight (snd kv)) d)"
  by (induction d) auto

lemma weight_default_Failure: "weight (default_hook (PFailure n m st)) < weight (PFailure n m st)"
  using weight_dict_set [of class_uuid_key "PStr (str_uuid Failure_uuid)" "failureAsJSON n m st"]
    weight_dict_set [of "KStr (ulit ''type'')"
      "PDict [(KStr (ulit ''__module__''), m), (KStr (ulit ''__name__''), PStr n)]" st]
  by (simp add: failureAsJSON_def)

lemma weight_default_Constant: "weight (default_hook (PNamedConstant c n)) < weight (PNamedConstant c n)"
  by (simp add: class_uuid_key_def)

function iterencode :: "pyval \<Rightarrow> ustr" where
  "iterencode PNone = ulit ''null''"
| "iterencode (PBool b) = (if b then ulit ''true'' else ulit ''false'')"
| "iterencode (PInt i) = str_int i"
| "iterencode (PStr s) = encode_basestring_ascii s"
| "iterencode (PList xs) = [91] @ join (ulit '', '') (map iterencode xs) @ [93]"
| "iterencode (PTuple xs) = [91] @ join (ulit '', '') (map iterencode xs) @ [93]"
| "iterencode (PDict d) =
     [123] @ join (ulit '', '')
       (map (\<lambda>(k, v). encode_basestring_ascii (the (key_text k)) @ ulit '': '' @ iterencode v)
          (filter (\<lambda>(k, v). key_text k \<noteq> None) d)) @ [125]"
| "iterencode (PBytes b) = iterencode (default_hook (PBytes b))"
| "iterencode (PNamedConstant c n) = iterencode (default_hook (PNamedConstant c n))"
| "iterencode (PClass n m) = iterencode (default_hook (PClass n m))"
| "iterencode (PFailure n m st) = iterencode (default_hook (PFailure n m st))"
| "iterencode (PObject n) = iterencode (default_hook (PObject n))"
  by pat_completeness auto
termination
proof (relation "measure weight", goal_cases)
  case 1
  then show ?case by simp
next
  case (2 xs x)
  then show ?case using weight_member [of x xs] by simp
next
  case (3 xs x)
  then show ?case using weight_member [of x xs] by simp
next
  case (4 d kv k v)
  then show ?case using weight_item [of k v d] by simp
next
  case (5 b)
  then show ?case by simp
next
  case (6 c n)
  then show ?case using weight_default_Constant [of c n] by simp
next
  case (7 n m)
  then show ?case by simp
next
  case (8 n m st)
  then show ?case using weight_default_Failure [of n m st] by simp
next
  case (9 n)
  then show ?case by simp
qed

subsection \<open>\<open>eventAsJSON\<close>\<close>

text \<open>
  \<open>flattenEvent\<close> (\<open>twisted.python.logger._flatten\<close>) is not under src/: it is a
  parameter. \<open>eventAsJSON\<close> calls it for its effect on the event and then serialises
  the event, so \<open>flattenEvent event\<close> is the content of the event after the call.
  The result is the JSON text together with the event as it is left behind.
\<close>

definition eventAsJSON :: "(dict \<Rightarrow> dict) \<Rightarrow> dict \<Rightarrow> ustr \<times> dict" where
  "eventAsJSON flattenEvent event =
     (let event' = flattenEvent event in (iterencode (PDict event'), event'))"



subsection \<open>Loading: \<open>failureFromJSON\<close> and \<open>objectLoadHook\<close>\<close>

text \<open>
  The loader of the first entry of \<open>classInfo\<close>:
  \<open>getattr(LogLevel, level["name"], None)\<close>. (Attributes of the class \<open>LogLevel\<close>
  other than its members are not modelled.)
\<close>

definition levelFromJSON :: "dict \<Rightarrow> error + pyval" where
  "levelFromJSON level =
     (case dict_get level (KStr (ulit ''name'')) of
        None \<Rightarrow> Inl KeyError
      | Some (PStr n) \<Rightarrow> Inr (if n \<in> set LogLevel_names then LogLevel_const n else PNone)
      | Some _ \<Rightarrow> Inl TypeError)"

text \<open>
  \<open>failureFromJSON\<close>: the entry \<open>type\<close> of the dictionary is replaced by a class made
  by \<open>type(typeInfo["__name__"], (), typeInfo)\<close>, and the dictionary becomes the
  \<open>__dict__\<close> of a new \<open>Failure\<close>. A class made without \<open>__module__\<close> gets the name of
  the module that makes it.
\<close>

definition failureFromJSON :: "dict \<Rightarrow> error + pyval" where
  "failureFromJSON failureDict =
     (case dict_get failureDict (KStr (ulit ''type'')) of
        None \<Rightarrow> Inl KeyError
      | Some (PDict typeInfo) \<Rightarrow>
          (case dict_get typeInfo (KStr (ulit ''__name__'')) of
             None \<Rightarrow> Inl KeyError
           | Some (PStr name) \<Rightarrow>
               (let module = (case dict_get typeInfo (KStr (ulit ''__module__'')) of
                                None \<Rightarrow> PStr (ulit ''twisted.python.logger._json'')
                              | Some m \<Rightarrow> m)
                in Inr (PFailure name module
                          (dict_set (KStr (ulit ''type'')) (PClass name module) failureDict)))
           | Some _ \<Rightarrow> Inl TypeError)
      | Some _ \<Rightarrow> Inl TypeError)"

text \<open>\<open>uuidToLoader[uuid]\<close>: the dictionary built from \<open>classInfo\<close>.\<close>

definition uuidToLoader :: "uuid \<Rightarrow> (dict \<Rightarrow> error + pyval) option" where
  "uuidToLoader u =
     (if u = Failure_uuid then Some failureFromJSON
      else if u = LogLevel_uuid then Some levelFromJSON
      else None)"

text \<open>
  \<open>UUID(x)\<close> for any value: \<open>None\<close> raises TypeError, a value without \<open>replace\<close>
  raises AttributeError.
\<close>

fun UUID_of :: "pyval \<Rightarrow> error + uuid" where
  "UUID_of (PStr s) = UUID s"
| "UUID_of PNone = Inl TypeError"
| "UUID_of v = Inl AttributeError"

definition objectLoadHook :: "dict \<Rightarrow> error + pyval" where
  "objectLoadHook aDict =
     (case dict_get aDict class_uuid_key of
        Some tag \<Rightarrow>
          (case UUID_of tag of
             Inl e \<Rightarrow> Inl e
           | Inr u \<Rightarrow> (case uuidToLoader u of None \<Rightarrow> Inl KeyError | Some loader \<Rightarrow> loader aDict))
      | None \<Rightarrow> Inr (PDict aDict))"

subsection \<open>json.loads\<close>

definition is_ws :: "nat \<Rightarrow> bool" where
  "is_ws c = (c = 32 \<or> c = 9 \<or> c = 10 \<or> c = 13)"

definition skip_ws :: "ustr \<Rightarrow> ustr" where
  "skip_ws s = dropWhile is_ws s"

definition is_digit :: "nat \<Rightarrow> bool" where
  "is_digit c = (48 \<le> c \<and> c \<le> 57)"

text \<open>Four hexadecimal digits, as after \<open>\u\<close>.\<close>

definition decode_uXXXX :: "ustr \<Rightarrow> nat option" where
  "decode_uXXXX s =
     (if length s \<ge> 4 \<and> list_all (\<lambda>c. hex_value c \<noteq> None) (take 4 s)
      then Some (foldl (\<lambda>a c. 16 * a + the (hex_value c)) 0 (take 4 s))
      else None)"

text \<open>
  One escape sequence, after the backslash: the character it denotes and the rest of
  the input. A high surrogate followed by an escaped low surrogate is one character.
\<close>

definition scan_escape :: "ustr \<Rightarrow> error + nat \<times> ustr" where
  "scan_escape s =
     (case s of
        [] \<Rightarrow> Inl ValueError
      | e # r \<Rightarrow>
          if e = 117 then
            (case decode_uXXXX r of
               None \<Rightarrow> Inl ValueError
             | Some uni \<Rightarrow>
                 if 0xD800 \<le> uni \<and> uni \<le> 0xDBFF \<and> take 2 (drop 4 r) = [92, 117] then
                   (case decode_uXXXX (drop 6 r) of
                      None \<Rightarrow> Inl ValueError
                    | Some uni2 \<Rightarrow>
                        if 0xDC00 \<le> uni2 \<and> uni2 \<le> 0xDFFF
                        then Inr (0x10000 + (uni - 0xD800) * 0x400 + (uni2 - 0xDC00), drop 10 r)
                        else Inr (uni, drop 4 r))
                 else Inr (uni, drop 4 r))
          else if e = 34 then Inr (34, r)
          else if e = 92 then Inr (92, r)
          else if e = 47 then Inr (47, r)
          else if e = 98 then Inr (8, r)
          else if e = 102 then Inr (12, r)
          else if e = 110 then Inr (10, r)
          else if e = 114 then Inr (13, r)
          else if e = 116 then Inr (9, r)
          else Inl ValueError)"

lemma scan_escape_shorter: "scan_escape s = Inr (c, r) \<Longrightarrow> length r < length s"
  by (auto simp: scan_escape_def split: list.splits if_splits option.splits)

text \<open>
  \<open>scanstring\<close> (strict): the content of a string literal, from after the opening
  quote, and the input after the closing quote.
\<close>

function scanstring :: "ustr \<Rightarrow> error + ustr \<times> ustr" where
  "scanstring [] = Inl ValueError"
| "scanstring (c # cs) =
     (if c = 34 then Inr ([], cs)
      else if c = 92 then
        (case scan_escape cs of
           Inl e \<Rightarrow> Inl e
         | Inr (ch, r) \<Rightarrow>
             (case scanstring r of Inl e \<Rightarrow> Inl e | Inr (t, r') \<Rightarrow> Inr (ch # t, r')))
      else if c < 32 then Inl ValueError
      else (case scanstring cs of Inl e \<Rightarrow> Inl e | Inr (t, r') \<Rightarrow> Inr (c # t, r')))"
  by pat_completeness auto
termination
  by (relation "measure length") (auto dest: scan_escape_shorter)

text \<open>
  A number at the head of the input, if there is one. An integer literal gives an
  \<open>int\<close>; a literal with a fraction or an exponent is a \<open>float\<close>.
\<close>

definition int_of_digits :: "ustr \<Rightarrow> nat" where
  "int_of_digits ds = foldl (\<lambda>a d. 10 * a + (d - 48)) 0 ds"

definition match_number :: "ustr \<Rightarrow> (error + pyval \<times> ustr) option" where
  "match_number s =
     (let neg = (s \<noteq> [] \<and> hd s = 45);
          r = (if neg then tl s else s)
      in case r of
           [] \<Rightarrow> None
         | d # r' \<Rightarrow>
             if \<not> is_digit d then None
             else
               (let ds = (if d = 48 then [d] else d # takeWhile is_digit r');
                    r1 = (if d = 48 then r' else dropWhile is_digit r');
                    frac = (case r1 of p # f # _ \<Rightarrow> p = 46 \<and> is_digit f | _ \<Rightarrow> False);
                    r2 = (if frac then dropWhile is_digit (tl r1) else r1);
                    x = (case r2 of e # x \<Rightarrow>
                           if e = 101 \<or> e = 69
                           then (case x of sg # x' \<Rightarrow> if sg = 43 \<or> sg = 45 then x' else x | [] \<Rightarrow> x)
                           else []
                         | [] \<Rightarrow> []);
                    ex = (x \<noteq> [] \<and> is_digit (hd x))
                in if frac \<or> ex then Some (Inl NotModelled)
                   else Some (Inr (PInt (if neg then - int (int_of_digits ds) else int (int_of_digits ds)), r1))))"

datatype 'a parse = OutOfFuel | Raise error | Ok 'a ustr

type_synonym hook = "dict \<Rightarrow> error + pyval"

text \<open>
  The scanner. \<open>scan_once\<close> reads one value at the head of the input;
  \<open>parse_array\<close> reads the items of an array, from the first item on;
  \<open>parse_object\<close> reads the members of an object, from after the opening quote of a
  key on. The first argument is the \<open>object_hook\<close>, the second bounds the number of
  nested calls.
\<close>

fun scan_once :: "hook \<Rightarrow> nat \<Rightarrow> ustr \<Rightarrow> pyval parse"
  and parse_array :: "hook \<Rightarrow> nat \<Rightarrow> pyval list \<Rightarrow> ustr \<Rightarrow> pyval parse"
  and parse_object :: "hook \<Rightarrow> nat \<Rightarrow> dict \<Rightarrow> ustr \<Rightarrow> pyval parse" where
  "scan_once h 0 s = OutOfFuel"
| "scan_once h (Suc n) s =
     (case s of
        [] \<Rightarrow> Raise ValueError
      | c # r \<Rightarrow>
          if c = 34 then
            (case scanstring r of Inl e \<Rightarrow> Raise e | Inr (t, r') \<Rightarrow> Ok (PStr t) r')
          else if c = 123 then
            (case skip_ws r of
               [] \<Rightarrow> Raise ValueError
             | c1 # r1 \<Rightarrow>
                 if c1 = 125 then (case h [] of Inl e \<Rightarrow> Raise e | Inr v \<Rightarrow> Ok v r1)
                 else if c1 = 34 then parse_object h n [] r1
                 else Raise ValueError)
          else if c = 91 then
            (case skip_ws r of
               [] \<Rightarrow> Raise ValueError
             | c1 # r1 \<Rightarrow>
                 if c1 = 93 then Ok (PList []) r1 else parse_array h n [] (c1 # r1))
          else if take 4 s = ulit ''null'' then Ok PNone (drop 4 s)
          else if take 4 s = ulit ''true'' then Ok (PBool True) (drop 4 s)
          else if take 5 s = ulit ''false'' then Ok (PBool False) (drop 5 s)
          else
            (case match_number s of
               Some (Inl e) \<Rightarrow> Raise e
             | Some (Inr (v, r')) \<Rightarrow> Ok v r'
             | None \<Rightarrow>
                 if take 3 s = ulit ''NaN'' \<or> take 8 s = ulit ''Infinity''
                    \<or> take 9 s = ulit ''-Infinity''
                 then Raise NotModelled
                 else Raise ValueError))"
| "parse_array h 0 acc s = OutOfFuel"
| "parse_array h (Suc n) acc s =
     (case scan_once h n s of
        OutOfFuel \<Rightarrow> OutOfFuel
      | Raise e \<Rightarrow> Raise e
      | Ok v r \<Rightarrow>
          (case skip_ws r of
             [] \<Rightarrow> Raise ValueError
           | c # r1 \<Rightarrow>
               if c = 93 then Ok (PList (acc @ [v])) r1
               else if c = 44 then parse_array h n (acc @ [v]) (skip_ws r1)
               else Raise ValueError))"
| "parse_object h 0 acc s = OutOfFuel"
| "parse_object h (Suc n) acc s =
     (case scanstring s of
        Inl e \<Rightarrow> Raise e
      | Inr (key, r) \<Rightarrow>
          (case skip_ws r of
             [] \<Rightarrow> Raise ValueError
           | c # r1 \<Rightarrow>
               if c \<noteq> 58 then Raise ValueError
               else
                 (case scan_once h n (skip_ws r1) of
                    OutOfFuel \<Rightarrow> OutOfFuel
                  | Raise e \<Rightarrow> Raise e
                  | Ok v r2 \<Rightarrow>
                      (case skip_ws r2 of
                         [] \<Rightarrow> Raise ValueError
                       | c2 # r3 \<Rightarrow>
                           if c2 = 125 then
                             (case h (dict_of_items (acc @ [(KStr key, v)])) of
                                Inl e \<Rightarrow> Raise e
                              | Inr obj \<Rightarrow> Ok obj r3)
                           else if c2 = 44 then
                             (case skip_ws r3 of
                                [] \<Rightarrow> Raise ValueError
                              | c3 # r4 \<Rightarrow>
                                  if c3 = 34 then parse_object h n (acc @ [(KStr key, v)]) r4
                                  else Raise ValueError)
                           else Raise ValueError))))"

text \<open>
  \<open>json.loads(s, object_hook=h)\<close>: one value, with white space around it and nothing
  else. The bound on nested calls is never reached.
\<close>

definition loads :: "hook \<Rightarrow> ustr \<Rightarrow> error + pyval" where
  "loads h s =
     (case scan_once h (2 * length s + 2) (skip_ws s) of
        OutOfFuel \<Rightarrow> Inl NotModelled
      | Raise e \<Rightarrow> Inl e
      | Ok v r \<Rightarrow> if skip_ws r = [] then Inr v else Inl ValueError)"

subsection \<open>\<open>eventFromJSON\<close>\<close>

definition eventFromJSON :: "ustr \<Rightarrow> error + pyval" where
  "eventFromJSON eventText = loads objectLoadHook eventText"

section \<open>twisted.python.logger._json: reading a log file\<close>

subsection \<open>Text and bytes\<close>

text \<open>\<open>str.encode("utf-8")\<close>; a surrogate code point raises UnicodeEncodeError.\<close>

definition utf8_encode_char :: "nat \<Rightarrow> error + string" where
  "utf8_encode_char c =
     (if c < 0x80 then Inr [char_of c]
      else if c < 0x800 then Inr [char_of (0xC0 + c div 0x40), char_of (0x80 + c mod 0x40)]
      else if 0xD800 \<le> c \<and> c \<le> 0xDFFF then Inl UnicodeError
      else if c < 0x10000 then
        Inr [char_of (0xE0 + c div 0x1000), char_of (0x80 + c div 0x40 mod 0x40),
             char_of (0x80 + c mod 0x40)]
      else
        Inr [char_of (0xF0 + c div 0x40000), char_of (0x80 + c div 0x1000 mod 0x40),
             char_of (0x80 + c div 0x40 mod 0x40), char_of (0x80 + c mod 0x40)])"

fun utf8_encode :: "ustr \<Rightarrow> error + string" where
  "utf8_encode [] = Inr []"
| "utf8_encode (c # cs) =
     (case utf8_encode_char c of
        Inl e \<Rightarrow> Inl e
      | Inr b \<Rightarrow> (case utf8_encode cs of Inl e \<Rightarrow> Inl e | Inr bs \<Rightarrow> Inr (b @ bs)))"

text \<open>
  \<open>bytes.decode("utf-8", "surrogatepass")\<close> on the values of the bytes; \<open>None\<close> is
  UnicodeDecodeError.
\<close>

definition is_cont :: "nat \<Rightarrow> bool" where
  "is_cont b = (0x80 \<le> b \<and> b \<le> 0xBF)"

fun utf8_decode :: "nat list \<Rightarrow> ustr option" where
  "utf8_decode [] = Some []"
| "utf8_decode (b0 # r) =
     (if b0 < 0x80 then map_option ((#) b0) (utf8_decode r)
      else if 0xC2 \<le> b0 \<and> b0 \<le> 0xDF then
        (case r of
           b1 # r1 \<Rightarrow>
             if is_cont b1
             then map_option ((#) ((b0 - 0xC0) * 0x40 + (b1 - 0x80))) (utf8_decode r1)
             else None
         | _ \<Rightarrow> None)
      else if 0xE0 \<le> b0 \<and> b0 \<le> 0xEF then
        (case r of
           b1 # b2 # r2 \<Rightarrow>
             if is_cont b1 \<and> is_cont b2
                \<and> 0x800 \<le> (b0 - 0xE0) * 0x1000 + (b1 - 0x80) * 0x40 + (b2 - 0x80)
             then map_option ((#) ((b0 - 0xE0) * 0x1000 + (b1 - 0x80) * 0x40 + (b2 - 0x80)))
                    (utf8_decode r2)
             else None
         | _ \<Rightarrow> None)
      else if 0xF0 \<le> b0 \<and> b0 \<le> 0xF4 then
        (case r of
           b1 # b2 # b3 # r3 \<Rightarrow>
             if is_cont b1 \<and> is_cont b2 \<and> is_cont b3
                \<and> 0x10000 \<le> (b0 - 0xF0) * 0x40000 + (b1 - 0x80) * 0x1000
                                + (b2 - 0x80) * 0x40 + (b3 - 0x80)
                \<and> (b0 - 0xF0) * 0x40000 + (b1 - 0x80) * 0x1000
                      + (b2 - 0x80) * 0x40 + (b3 - 0x80) < 0x110000
             then map_option ((#) ((b0 - 0xF0) * 0x40000 + (b1 - 0x80) * 0x1000
                                    + (b2 - 0x80) * 0x40 + (b3 - 0x80)))
                    (utf8_decode r3)
             else None
         | _ \<Rightarrow> None)
      else None)"

text \<open>
  \<open>eventFromJSON(bytes(record))\<close>: \<open>json.loads\<close> decodes a byte string before it
  parses it. The record is taken to be UTF-8, as \<open>jsonFileLogObserver\<close> writes it; the
  standard library's detection of a byte-order mark, of UTF-16 and of UTF-32 is not
  modelled.
\<close>

definition eventFromJSON_bytes :: "string \<Rightarrow> error + pyval" where
  "eventFromJSON_bytes record =
     (case utf8_decode (map of_char record) of
        None \<Rightarrow> Inl UnicodeError
      | Some t \<Rightarrow> eventFromJSON t)"

subsection \<open>\<open>eventsFromJSONLogFile\<close>\<close>

definition RS :: char where
  "RS = CHR 0x1E"

text \<open>\<open>except ValueError\<close> catches ValueError and its subclasses.\<close>

definition isValueError :: "error \<Rightarrow> bool" where
  "isValueError e = (e = ValueError \<or> e = UnicodeError)"

text \<open>
  What the generator does, as far as it is run: the events it yields, in order, the
  records it reports with \<open>log.error\<close>, in order, and the exception that ends it
  (\<open>None\<close> when it ends by returning).
\<close>

record run =
  events :: "pyval list"
  reports :: "string list"
  raised :: "error option"

definition run_nothing :: run where
  "run_nothing = \<lparr>events = [], reports = [], raised = None\<rparr>"

text \<open>One run after another; what follows an exception does not happen.\<close>

definition run_then :: "run \<Rightarrow> run \<Rightarrow> run" where
  "run_then a b =
     (if raised a \<noteq> None then a
      else \<lparr>events = events a @ events b, reports = reports a @ reports b, raised = raised b\<rparr>)"

text \<open>
  The inner function \<open>eventFromRecord\<close>, with the decoder it calls as a parameter: its
  result (\<open>PNone\<close> when it falls off its end) and the records it has reported, or the
  exception that it lets through.
\<close>

definition eventFromRecord :: "(string \<Rightarrow> error + pyval) \<Rightarrow> string \<Rightarrow> error + pyval \<times> string list" where
  "eventFromRecord decode record =
     (if record \<noteq> [] \<and> last record = LF then
        (case decode record of
           Inr event \<Rightarrow> Inr (event, [])
         | Inl e \<Rightarrow> if isValueError e then Inr (PNone, [record]) else Inl e)
      else Inr (PNone, []))"

text \<open>\<open>event = eventFromRecord(record); if event is not None: yield event\<close>\<close>

definition yield_record :: "(string \<Rightarrow> error + pyval) \<Rightarrow> string \<Rightarrow> run" where
  "yield_record decode record =
     (case eventFromRecord decode record of
        Inl e \<Rightarrow> \<lparr>events = [], reports = [], raised = Some e\<rparr>
      | Inr (event, logged) \<Rightarrow>
          \<lparr>events = (if event \<noteq> PNone then [event] else []), reports = logged, raised = None\<rparr>)"

text \<open>\<open>for record in records[:-1]: ...\<close>\<close>

fun yield_records :: "(string \<Rightarrow> error + pyval) \<Rightarrow> string list \<Rightarrow> run" where
  "yield_records decode [] = run_nothing"
| "yield_records decode (record # records) =
     run_then (yield_record decode record) (yield_records decode records)"

text \<open>
  The \<open>while True\<close> loop. The file is the list of what its successive
  \<open>read(4096)\<close> calls return (text); when the list is used up, \<open>read\<close> returns the
  empty string.
\<close>

fun read_loop :: "(string \<Rightarrow> error + pyval) \<Rightarrow> string \<Rightarrow> ustr list \<Rightarrow> run" where
  "read_loop decode buffer [] = yield_record decode buffer"
| "read_loop decode buffer (newData # inFile) =
     (if newData = [] then yield_record decode buffer
      else
        (case utf8_encode newData of
           Inl e \<Rightarrow> \<lparr>events = [], reports = [], raised = Some e\<rparr>
         | Inr b \<Rightarrow>
             (let records = split_bytes [RS] [] (buffer @ b)
              in run_then (yield_records decode (butlast records))
                   (read_loop decode (last records) inFile))))"

definition eventsFromJSONLogFile_with :: "(string \<Rightarrow> error + pyval) \<Rightarrow> ustr list \<Rightarrow> run" where
  "eventsFromJSONLogFile_with decode inFile = read_loop decode [] inFile"

definition eventsFromJSONLogFile :: "ustr list \<Rightarrow> run" where
  "eventsFromJSONLogFile inFile = eventsFromJSONLogFile_with eventFromJSON_bytes inFile"

section \<open>Properties of FilePasswordDB\<close>

text \<open>
  Claim C9. Over a file that holds exactly \<open>alice:secret\<close> and a line feed, a
  \<open>FilePasswordDB\<close> with the default delimiter and field indices answers
  \<open>getUser(b"alice")\<close> with the pair \<open>(b"alice", b"secret")\<close>, and \<open>getUser(b"bob")\<close>
  raises KeyError.
\<close>

theorem getUser_alice_bob:
  "fst (getUser default_db \<lparr>content = Some (''alice:secret'' @ [LF]), mtime = t\<rparr> ''alice'')
     = Inr (''alice'', ''secret'')
   \<and> fst (getUser default_db \<lparr>content = Some (''alice:secret'' @ [LF]), mtime = t\<rparr> ''bob'')
     = Inl KeyError"
  by (simp add: getUser_def default_db_def loadCredentials_def cred_of_line_def too_short_def
      line_parts_def rstrip_def is_space_def py_index_def canon_def LF_def)

subsection \<open>Lines with too few fields\<close>






lemma first_match_Some: "first_match u ps = Some r \<Longrightarrow> fst r = u"
  by (induction ps) (auto split: if_splits)


lemma cred_of_line_timestamp [simp]:
  "cred_of_line (db\<lparr>cacheTimestamp := t\<rparr>) l = cred_of_line db l"
  by (simp add: cred_of_line_def too_short_def line_parts_def split: sum.splits)

lemma creds_timestamp [simp]:
  "creds_of_lines (db\<lparr>cacheTimestamp := t\<rparr>) ls = creds_of_lines db ls"
  by (induction ls) (simp_all split: sum.splits option.splits)


lemma negative_field_index_raises:
  "cred_of_line (default_db\<lparr>ufield := - 3\<rparr>) ''a:b'' = Inl IndexError"
  by (simp add: cred_of_line_def default_db_def too_short_def line_parts_def rstrip_def
      is_space_def py_index_def)



section \<open>Properties of the JSON encoder\<close>

lemma hex_digit_not_LF: "d < 16 \<Longrightarrow> hex_digit d \<noteq> 10"
  by (simp add: hex_digit_def)

lemma hex_fixed_not_LF: "10 \<notin> set (hex_fixed w n)"
  by (induction w arbitrary: n) (auto simp: hex_digit_def)

lemma escape_char_not_LF: "10 \<notin> set (escape_char c)"
  by (simp add: escape_char_def hex_fixed_not_LF ulit_def)

lemma encode_basestring_ascii_not_LF: "10 \<notin> set (encode_basestring_ascii s)"
  by (simp add: encode_basestring_ascii_def escape_char_not_LF)

lemma str_nat_not_LF: "10 \<notin> set (str_nat n)"
proof (induction n rule: str_nat.induct)
  case (1 n)
  show ?case
  proof (cases "n < 10")
    case True
    then show ?thesis by (subst str_nat.simps) simp
  next
    case False
    with 1 show ?thesis by (subst str_nat.simps) simp
  qed
qed

lemma str_int_not_LF: "10 \<notin> set (str_int i)"
  by (simp add: str_int_def str_nat_not_LF)

lemma join_not_in:
  "c \<notin> set sep \<Longrightarrow> \<forall>x \<in> set xs. c \<notin> set x \<Longrightarrow> c \<notin> set (join sep xs)"
  by (induction sep xs rule: join.induct) simp_all

lemma key_text_not_LF: "key_text k = Some t \<Longrightarrow> 10 \<notin> set (encode_basestring_ascii t)"
  by (rule encode_basestring_ascii_not_LF)

lemma iterencode_not_LF: "10 \<notin> set (iterencode v)"
proof (induction v rule: iterencode.induct)
  case (5 xs)
  then have "10 \<notin> set (join (ulit '', '') (map iterencode xs))"
    by (intro join_not_in) (simp_all add: ulit_def)
  then show ?case by simp
next
  case (6 xs)
  then have "10 \<notin> set (join (ulit '', '') (map iterencode xs))"
    by (intro join_not_in) (simp_all add: ulit_def)
  then show ?case by simp
next
  case (7 d)
  have "10 \<notin> set (join (ulit '', '')
       (map (\<lambda>(k, v). encode_basestring_ascii (the (key_text k)) @ ulit '': '' @ iterencode v)
          (filter (\<lambda>(k, v). key_text k \<noteq> None) d)))"
  proof (rule join_not_in, goal_cases)
    case 1
    show ?case by (simp add: ulit_def)
  next
    case 2
    show ?case
    proof
    fix x
    assume "x \<in> set (map (\<lambda>(k, v). encode_basestring_ascii (the (key_text k)) @ ulit '': '' @ iterencode v)
          (filter (\<lambda>(k, v). key_text k \<noteq> None) d))"
    then obtain k v where kv: "(k, v) \<in> set (filter (\<lambda>(k, v). key_text k \<noteq> None) d)"
      and x: "x = encode_basestring_ascii (the (key_text k)) @ ulit '': '' @ iterencode v"
      by auto
    from 7 [OF kv refl] have "10 \<notin> set (iterencode v)" by simp
    with x show "10 \<notin> set x"
      by (simp add: encode_basestring_ascii_not_LF ulit_def)
    qed
  qed
  then show ?case by simp
qed (simp_all add: ulit_def str_int_not_LF encode_basestring_ascii_not_LF)

text \<open>
  Claim C5. For every event, whatever \<open>flattenEvent\<close> leaves in it and whatever text
  its values hold, the text that \<open>eventAsJSON\<close> returns contains no line feed
  (code point 10).
\<close>

theorem eventAsJSON_no_line_feed: "10 \<notin> set (fst (eventAsJSON flattenEvent event))"
  by (simp add: eventAsJSON_def Let_def iterencode_not_LF del: iterencode.simps)

end
